theory Spec2Isabelle
  imports Main
begin

section \<open>Python values\<close>

text \<open>
  A resource definition is a Python \<^verbatim>\<open>Dict[str, Any]\<close> read from a template. The values
  are modelled as a small universe of Python objects; a dictionary keeps its entries in
  insertion order, as an association list whose first entry for a key is the one
  \<^verbatim>\<open>dict.get\<close> finds.
\<close>

datatype pyval =
    PNone
  | PBool bool
  | PInt int
  | PStr string
  | PList "pyval list"
  | PDict "(string \<times> pyval) list"

type_synonym resource = "(string \<times> pyval) list"

datatype error = AttributeError | TypeError | ClientError

text \<open>Python's truth value of an object, as \<^verbatim>\<open>if not x\<close> tests it.\<close>

fun truthy :: "pyval \<Rightarrow> bool" where
  "truthy PNone = False"
| "truthy (PBool b) = b"
| "truthy (PInt i) = (i \<noteq> 0)"
| "truthy (PStr s) = (s \<noteq> [])"
| "truthy (PList xs) = (xs \<noteq> [])"
| "truthy (PDict d) = (d \<noteq> [])"

text \<open>Lists and dictionaries cannot be dictionary keys: looking one up raises TypeError.\<close>

fun hashable :: "pyval \<Rightarrow> bool" where
  "hashable (PList xs) = False"
| "hashable (PDict d) = False"
| "hashable v = True"

section \<open>Resource identifiers\<close>

record ResourceIdentifier =
  stack_path :: string
  logical_id :: string

definition sep :: char where
  "sep = CHR ''/''"

text \<open>
  The join used for every path of this development: the two parts with a separator
  between them, and the second part alone when the first is empty.
\<close>

definition path_join :: "string \<Rightarrow> string \<Rightarrow> string" where
  "path_join a b = (if a = [] then b else a @ sep # b)"

text \<open>
  Modelled from the spec: the class ResourceIdentifier of samcli/lib/providers/provider.py,
  which is not among the sources (only its unit tests are). \<open>parse\<close> is the constructor
  from a string: it splits on the last separator; a string without separator is a logical
  id of the root stack.
\<close>

definition parse :: "string \<Rightarrow> ResourceIdentifier" where
  "parse raw =
     (if sep \<in> set raw
      then \<lparr>stack_path = rev (tl (dropWhile (\<lambda>c. c \<noteq> sep) (rev raw))),
            logical_id = rev (takeWhile (\<lambda>c. c \<noteq> sep) (rev raw))\<rparr>
      else \<lparr>stack_path = [], logical_id = raw\<rparr>)"

text \<open>
  Modelled from the spec: \<^verbatim>\<open>str()\<close> of a ResourceIdentifier (provider.py, not among the
  sources). The tests fix \<^verbatim>\<open>str(ResourceIdentifier("Function1")) == "Function1"\<close>, so an
  empty stack path contributes no separator.
\<close>

definition to_string :: "ResourceIdentifier \<Rightarrow> string" where
  "to_string rid = path_join (stack_path rid) (logical_id rid)"

text \<open>
  The segments of an identifier string, as Python's \<^verbatim>\<open>s.split("/")\<close> and
  \<^verbatim>\<open>"/".join(segs)\<close> compute them. They state what "last segment" and "all preceding
  segments" mean.
\<close>

fun split_sep :: "string \<Rightarrow> string list" where
  "split_sep [] = [[]]"
| "split_sep (c # cs) =
     (if c = sep then [] # split_sep cs
      else (case split_sep cs of [] \<Rightarrow> [[c]] | seg # segs \<Rightarrow> (c # seg) # segs))"

fun join_sep :: "string list \<Rightarrow> string" where
  "join_sep [] = []"
| "join_sep [x] = x"
| "join_sep (x # y # ys) = x @ sep # join_sep (y # ys)"

text \<open>
  An identifier string is well formed when it is empty or every one of its segments is a
  name, that is, non-empty: the format \<^verbatim>\<open>segment/segment/.../logical_id\<close>.
\<close>

definition well_formed :: "string \<Rightarrow> bool" where
  "well_formed s = (s = [] \<or> [] \<notin> set (split_sep s))"

section \<open>Stacks and the resolver\<close>

record Stack =
  parent_stack_path :: string
  name :: string
  resources :: "(string \<times> resource) list"

text \<open>
  Modelled from the spec: the property \<^verbatim>\<open>Stack.stack_path\<close> of provider.py (not among the
  sources), the stack's full path: the join of its ancestor path and its own name, empty
  for the root stack.
\<close>

definition stack_full_path :: "Stack \<Rightarrow> string" where
  "stack_full_path s = path_join (parent_stack_path s) (name s)"

text \<open>
  Modelled from the spec: \<^verbatim>\<open>get_resource_by_id\<close> of provider.py (not among the sources).
  With an explicit path the target is the stack whose full path equals the identifier's
  stack path (\<open>find_stack\<close>); without one, in implicit mode, the stacks are scanned in
  list order and the first one that has the logical id wins (\<open>scan_stacks\<close>).
\<close>

fun find_stack :: "Stack list \<Rightarrow> string \<Rightarrow> Stack option" where
  "find_stack [] p = None"
| "find_stack (s # ss) p = (if stack_full_path s = p then Some s else find_stack ss p)"

fun scan_stacks :: "Stack list \<Rightarrow> string \<Rightarrow> resource option" where
  "scan_stacks [] lid = None"
| "scan_stacks (s # ss) lid =
     (case map_of (resources s) lid of
        Some r \<Rightarrow> Some r
      | None \<Rightarrow> scan_stacks ss lid)"

definition get_resource_by_id :: "Stack list \<Rightarrow> ResourceIdentifier \<Rightarrow> bool \<Rightarrow> resource option" where
  "get_resource_by_id stacks identifier explicit_nested =
     (if explicit_nested \<or> stack_path identifier \<noteq> []
      then (case find_stack stacks (stack_path identifier) of
              None \<Rightarrow> None
            | Some s \<Rightarrow> map_of (resources s) (logical_id identifier))
      else scan_stacks stacks (logical_id identifier))"

text \<open>
  Modelled from the spec: the value \<^verbatim>\<open>explicit_nested\<close> takes when a caller of
  \<^verbatim>\<open>get_resource_by_id\<close> passes two arguments only. It is declared in the signature in
  provider.py, which is not among the sources; the spec calls the resolution of the flow
  factory "explicit-by-default". No result of this development depends on the value: the
  proofs never unfold it.
\<close>

definition explicit_nested_default :: bool where
  "explicit_nested_default = True"

text \<open>
  Modelled from the spec: \<^verbatim>\<open>get_resources_by_type\<close> of provider.py (not among the
  sources): every stack in list order, its resources in insertion order, one identifier
  appended for each resource whose Type equals the type string.
\<close>

fun scan_resources ::
  "string \<Rightarrow> string \<Rightarrow> (string \<times> resource) list \<Rightarrow> ResourceIdentifier list \<Rightarrow> ResourceIdentifier list" where
  "scan_resources path resource_type [] resource_ids = resource_ids"
| "scan_resources path resource_type ((lid, r) # rs) resource_ids =
     scan_resources path resource_type rs
       (if map_of r ''Type'' = Some (PStr resource_type)
        then resource_ids @ [parse (path_join path lid)]
        else resource_ids)"

fun scan_types :: "Stack list \<Rightarrow> string \<Rightarrow> ResourceIdentifier list \<Rightarrow> ResourceIdentifier list" where
  "scan_types [] resource_type resource_ids = resource_ids"
| "scan_types (s # ss) resource_type resource_ids =
     scan_types ss resource_type
       (scan_resources (stack_full_path s) resource_type (resources s) resource_ids)"

definition get_resources_by_type :: "Stack list \<Rightarrow> string \<Rightarrow> ResourceIdentifier list" where
  "get_resources_by_type stacks resource_type = scan_types stacks resource_type []"

text \<open>The declarative reading of the type scan, to compare the loops with.\<close>

definition matching_ids :: "string \<Rightarrow> Stack \<Rightarrow> ResourceIdentifier list" where
  "matching_ids resource_type s =
     map (\<lambda>(lid, r). parse (path_join (stack_full_path s) lid))
       (filter (\<lambda>(lid, r). map_of r ''Type'' = Some (PStr resource_type)) (resources s))"

section \<open>The flow factory\<close>

text \<open>
  The type strings of the providers (\<^verbatim>\<open>SamBaseProvider\<close>, \<^verbatim>\<open>SamApiProvider\<close>,
  \<^verbatim>\<open>CfnApiProvider\<close>) and the two package types of \<^verbatim>\<open>samcli.lib.utils.packagetype\<close>
  are declared in modules that are not among the sources: they are parameters of the
  model, and every result below holds for all their values unless it says otherwise.
\<close>

record constants =
  LAMBDA_FUNCTION :: string
  SERVERLESS_FUNCTION :: string
  SERVERLESS_LAYER :: string
  LAMBDA_LAYER :: string
  SERVERLESS_API :: string
  APIGATEWAY_RESTAPI :: string
  SERVERLESS_HTTP_API :: string
  APIGATEWAY_V2_API :: string
  ZIP :: string
  IMAGE :: string

text \<open>
  The contexts are classes of other modules. The build context is opaque to the factory
  (a handle); of the deploy context it reads the region and the stack name. The
  configuration of the client is built from the region.
\<close>

datatype BuildContext = BuildContext nat

record DeployContext =
  region :: "string option"
  stack_name :: string

record Config =
  region_name :: "string option"

text \<open>
  The physical-id mapping is one mutable \<^verbatim>\<open>dict\<close> object that the factory and the flows
  it builds refer to. Objects live in a heap; a reference is an address.
\<close>

type_synonym ref = nat

type_synonym pydict = "string \<rightharpoonup> string"

record heap =
  objects :: "ref \<Rightarrow> pydict"
  fresh :: ref

definition new_dict :: "heap \<Rightarrow> ref \<times> heap" where
  "new_dict h = (fresh h, h\<lparr>objects := (objects h)(fresh h := Map.empty), fresh := Suc (fresh h)\<rparr>)"

definition clear :: "heap \<Rightarrow> ref \<Rightarrow> heap" where
  "clear h a = h\<lparr>objects := (objects h)(a := Map.empty)\<rparr>"

definition setitem :: "heap \<Rightarrow> ref \<Rightarrow> string \<Rightarrow> string \<Rightarrow> heap" where
  "setitem h a k v = h\<lparr>objects := (objects h)(a := (objects h a)(k \<mapsto> v))\<rparr>"

record SyncFlowFactory =
  deploy_context :: DeployContext
  build_context :: BuildContext
  stacks :: "Stack list"
  boto_config :: Config
  physical_id_mapping :: ref

definition init :: "BuildContext \<Rightarrow> DeployContext \<Rightarrow> Stack list \<Rightarrow> heap \<Rightarrow> SyncFlowFactory \<times> heap" where
  "init bc dc sts h =
     (let (a, h') = new_dict h
      in (\<lparr>deploy_context = dc,
           build_context = bc,
           stacks = sts,
           boto_config = \<lparr>region_name = (case region dc of
                                            None \<Rightarrow> None
                                          | Some r \<Rightarrow> if r \<noteq> [] then Some r else None)\<rparr>,
           physical_id_mapping = a\<rparr>, h'))"

text \<open>
  The remote side of \<^verbatim>\<open>load_physical_id_mapping\<close>: iterating over
  \<^verbatim>\<open>stack.resource_summaries.all()\<close> yields summaries one at a time and either ends or
  raises, before the first summary or after any number of them.
\<close>

record StackResourceSummary =
  logical_resource_id :: string
  physical_resource_id :: string

datatype iteration =
    StopIteration
  | Yield StackResourceSummary iteration
  | Raise error

fun populate :: "ref \<Rightarrow> iteration \<Rightarrow> heap \<Rightarrow> (error + unit) \<times> heap" where
  "populate a StopIteration h = (Inr (), h)"
| "populate a (Raise e) h = (Inl e, h)"
| "populate a (Yield r rest) h =
     populate a rest (setitem h a (logical_resource_id r) (physical_resource_id r))"

definition load_physical_id_mapping ::
  "(Config \<Rightarrow> string \<Rightarrow> iteration) \<Rightarrow> SyncFlowFactory \<Rightarrow> heap \<Rightarrow> (error + unit) \<times> heap" where
  "load_physical_id_mapping cloudformation self h =
     (let h' = clear h (physical_id_mapping self);
          resources = cloudformation (boto_config self) (stack_name (deploy_context self))
      in populate (physical_id_mapping self) resources h')"

text \<open>
  Modelled from the spec: the flow classes \<^verbatim>\<open>ZipFunctionSyncFlow\<close> and
  \<^verbatim>\<open>ImageFunctionSyncFlow\<close> of samcli/lib/sync/flows, which are not among the sources.
  A handler is given the five arguments the factory passes and holds them: a flow is the
  constructor of its class applied to them. The fourth argument is the factory's mapping
  object itself, passed by reference as Python passes every object, not a copy of it.
\<close>

datatype SyncFlow =
    ZipFunctionSyncFlow
      (flow_resource_identifier: string)
      (flow_build_context: BuildContext)
      (flow_deploy_context: DeployContext)
      (flow_physical_id_mapping: ref)
      (flow_stacks: "Stack list")
  | ImageFunctionSyncFlow
      (flow_resource_identifier: string)
      (flow_build_context: BuildContext)
      (flow_deploy_context: DeployContext)
      (flow_physical_id_mapping: ref)
      (flow_stacks: "Stack list")

definition create_lambda_flow ::
  "constants \<Rightarrow> SyncFlowFactory \<Rightarrow> string \<Rightarrow> resource \<Rightarrow> error + SyncFlow option" where
  "create_lambda_flow c self resource_identifier resource =
     (case (case map_of resource ''Properties'' of None \<Rightarrow> PDict [] | Some v \<Rightarrow> v) of
        PDict properties \<Rightarrow>
          (let package_type =
                 (case map_of properties ''PackageType'' of None \<Rightarrow> PStr (ZIP c) | Some v \<Rightarrow> v)
           in if package_type = PStr (ZIP c)
              then Inr (Some (ZipFunctionSyncFlow resource_identifier (build_context self)
                        (deploy_context self) (physical_id_mapping self) (stacks self)))
              else if package_type = PStr (IMAGE c)
              then Inr (Some (ImageFunctionSyncFlow resource_identifier (build_context self)
                        (deploy_context self) (physical_id_mapping self) (stacks self)))
              else Inr None)
      | _ \<Rightarrow> Inl AttributeError)"

definition create_layer_flow :: "SyncFlowFactory \<Rightarrow> string \<Rightarrow> resource \<Rightarrow> error + SyncFlow option" where
  "create_layer_flow self resource_identifier resource = Inr None"

definition create_rest_api_flow :: "SyncFlowFactory \<Rightarrow> string \<Rightarrow> resource \<Rightarrow> error + SyncFlow option" where
  "create_rest_api_flow self resource_identifier resource = Inr None"

definition create_api_flow :: "SyncFlowFactory \<Rightarrow> string \<Rightarrow> resource \<Rightarrow> error + SyncFlow option" where
  "create_api_flow self resource_identifier resource = Inr None"

text \<open>
  The table is a dictionary display: its entries are stored in the order written, so of
  two entries with one key the later one stays.
\<close>

definition FLOW_FACTORY_FUNCTIONS ::
  "constants \<Rightarrow> string \<rightharpoonup> (SyncFlowFactory \<Rightarrow> string \<Rightarrow> resource \<Rightarrow> error + SyncFlow option)" where
  "FLOW_FACTORY_FUNCTIONS c =
     [LAMBDA_FUNCTION c \<mapsto> create_lambda_flow c,
      SERVERLESS_FUNCTION c \<mapsto> create_lambda_flow c,
      SERVERLESS_LAYER c \<mapsto> create_layer_flow,
      LAMBDA_LAYER c \<mapsto> create_layer_flow,
      SERVERLESS_API c \<mapsto> create_rest_api_flow,
      APIGATEWAY_RESTAPI c \<mapsto> create_rest_api_flow,
      SERVERLESS_HTTP_API c \<mapsto> create_api_flow,
      APIGATEWAY_V2_API c \<mapsto> create_api_flow]"

definition create_sync_flow ::
  "constants \<Rightarrow> SyncFlowFactory \<Rightarrow> ResourceIdentifier \<Rightarrow> error + SyncFlow option" where
  "create_sync_flow c self resource_identifier =
     (case get_resource_by_id (stacks self) resource_identifier explicit_nested_default of
        None \<Rightarrow> Inr None
      | Some resource \<Rightarrow>
          if resource = [] then Inr None
          else (case map_of resource ''Type'' of
                  None \<Rightarrow> Inr None
                | Some resource_type \<Rightarrow>
                    if \<not> truthy resource_type then Inr None
                    else if \<not> hashable resource_type then Inl TypeError
                    else (case resource_type of
                            PStr t \<Rightarrow>
                              (case FLOW_FACTORY_FUNCTIONS c t of
                                 None \<Rightarrow> Inr None
                               | Some factory_function \<Rightarrow>
                                   factory_function self (to_string resource_identifier) resource)
                          | _ \<Rightarrow> Inr None)))"

text \<open>
  The summaries an iteration yields before it ends or raises, and the dictionary they
  make when stored in order: a key has the physical id of the last summary yielded for it.
\<close>

fun yielded :: "iteration \<Rightarrow> StackResourceSummary list" where
  "yielded StopIteration = []"
| "yielded (Raise e) = []"
| "yielded (Yield r rest) = r # yielded rest"

definition snapshot :: "StackResourceSummary list \<Rightarrow> pydict" where
  "snapshot rs = map_of (rev (map (\<lambda>r. (logical_resource_id r, physical_resource_id r)) rs))"

fun outcome :: "iteration \<Rightarrow> error + unit" where
  "outcome StopIteration = Inr ()"
| "outcome (Raise e) = Inl e"
| "outcome (Yield r rest) = outcome rest"

section \<open>A template tree to evaluate on\<close>

text \<open>
  The tree of the unit tests: a root stack, \<^verbatim>\<open>NestedStack1\<close> below it and
  \<^verbatim>\<open>NestedStack1/NestedNestedStack1\<close> below that. The root and the first nested stack
  both declare \<^verbatim>\<open>Function1\<close>, with different bodies; the root also has a table and a
  resource without Type.
\<close>

definition body1 :: resource where
  "body1 = [(''Type'', PStr ''AWS::Serverless::Function''),
            (''Properties'', PDict [(''Runtime'', PStr ''python3.8'')])]"

definition body2 :: resource where
  "body2 = [(''Type'', PStr ''AWS::Serverless::Function''),
            (''Properties'', PDict [(''PackageType'', PStr ''Image'')])]"

definition body3 :: resource where
  "body3 = [(''Type'', PStr ''AWS::Serverless::LayerVersion'')]"

definition body4 :: resource where
  "body4 = [(''Type'', PStr ''AWS::DynamoDB::Table'')]"

definition body5 :: resource where
  "body5 = [(''Properties'', PDict [])]"

definition root_stack :: Stack where
  "root_stack =
     \<lparr>parent_stack_path = [], name = [],
      resources = [(''Function1'', body1), (''Table1'', body4), (''Untyped1'', body5)]\<rparr>"

definition nested_stack :: Stack where
  "nested_stack =
     \<lparr>parent_stack_path = [], name = ''NestedStack1'', resources = [(''Function1'', body2)]\<rparr>"

definition nested_nested_stack :: Stack where
  "nested_nested_stack =
     \<lparr>parent_stack_path = ''NestedStack1'', name = ''NestedNestedStack1'',
      resources = [(''Function2'', body3)]\<rparr>"

definition test_stacks :: "Stack list" where
  "test_stacks = [root_stack, nested_stack, nested_nested_stack]"

text \<open>
  A factory over this tree, with the type strings and package types of AWS SAM for the
  parameters, and three answers of the remote side: a first snapshot, a later one, and one
  that fails after its first summary.
\<close>

definition aws :: constants where
  "aws = \<lparr>LAMBDA_FUNCTION = ''AWS::Lambda::Function'',
          SERVERLESS_FUNCTION = ''AWS::Serverless::Function'',
          SERVERLESS_LAYER = ''AWS::Serverless::LayerVersion'',
          LAMBDA_LAYER = ''AWS::Lambda::LayerVersion'',
          SERVERLESS_API = ''AWS::Serverless::Api'',
          APIGATEWAY_RESTAPI = ''AWS::ApiGateway::RestApi'',
          SERVERLESS_HTTP_API = ''AWS::Serverless::HttpApi'',
          APIGATEWAY_V2_API = ''AWS::ApiGatewayV2::Api'',
          ZIP = ''Zip'',
          IMAGE = ''Image''\<rparr>"

definition empty_heap :: heap where
  "empty_heap = \<lparr>objects = (\<lambda>a. Map.empty), fresh = 0\<rparr>"

definition test_deploy_context :: DeployContext where
  "test_deploy_context = \<lparr>region = Some ''us-east-1'', stack_name = ''sam-app''\<rparr>"

definition test_factory :: SyncFlowFactory where
  "test_factory = fst (init (BuildContext 0) test_deploy_context test_stacks empty_heap)"

definition test_heap :: heap where
  "test_heap = snd (init (BuildContext 0) test_deploy_context test_stacks empty_heap)"

definition first_fetch :: "Config \<Rightarrow> string \<Rightarrow> iteration" where
  "first_fetch cfg stack =
     Yield \<lparr>logical_resource_id = ''Function1'', physical_resource_id = ''sam-app-Function1-OLD''\<rparr>
       StopIteration"

definition second_fetch :: "Config \<Rightarrow> string \<Rightarrow> iteration" where
  "second_fetch cfg stack =
     Yield \<lparr>logical_resource_id = ''Function1'', physical_resource_id = ''sam-app-Function1-NEW''\<rparr>
       StopIteration"

definition failing_fetch :: "Config \<Rightarrow> string \<Rightarrow> iteration" where
  "failing_fetch cfg stack =
     Yield \<lparr>logical_resource_id = ''Table1'', physical_resource_id = ''sam-app-Table1-NEW''\<rparr>
       (Raise ClientError)"

definition test_flow :: SyncFlow where
  "test_flow = ZipFunctionSyncFlow ''Function1'' (BuildContext 0) test_deploy_context 0 test_stacks"

section \<open>Identifier lemmas\<close>

lemma parse_no_sep: "sep \<notin> set s \<Longrightarrow> parse s = \<lparr>stack_path = [], logical_id = s\<rparr>"
  by (simp add: parse_def)

lemma parse_at_last_sep:
  assumes "sep \<notin> set l"
  shows "parse (p @ sep # l) = \<lparr>stack_path = p, logical_id = l\<rparr>"
proof -
  let ?P = "\<lambda>c. c \<noteq> sep"
  have no: "\<And>x. x \<in> set (rev l) \<Longrightarrow> ?P x" using assms by auto
  have "takeWhile ?P (rev l @ sep # rev p) = rev l @ takeWhile ?P (sep # rev p)"
    using no by (rule takeWhile_append2)
  then have tw: "takeWhile ?P (rev l @ sep # rev p) = rev l" by simp
  have "dropWhile ?P (rev l @ sep # rev p) = dropWhile ?P (sep # rev p)"
    using no by (rule dropWhile_append2)
  then have dw: "dropWhile ?P (rev l @ sep # rev p) = sep # rev p" by simp
  show ?thesis using tw dw by (simp add: parse_def)
qed

lemma parse_path_join:
  "sep \<notin> set lid \<Longrightarrow> parse (path_join p lid) = \<lparr>stack_path = p, logical_id = lid\<rparr>"
  by (simp add: path_join_def parse_no_sep parse_at_last_sep)

lemma split_sep_nonempty: "split_sep s \<noteq> []"
  by (induction s) (auto split: list.splits)

lemma split_sep_no_sep: "sep \<notin> set s \<Longrightarrow> split_sep s = [s]"
  by (induction s) (auto split: list.splits)

lemma split_sep_segments: "seg \<in> set (split_sep s) \<Longrightarrow> sep \<notin> set seg"
  by (induction s arbitrary: seg) (auto split: list.splits if_splits)

lemma join_sep_Cons: "segs \<noteq> [] \<Longrightarrow> join_sep (seg # segs) = seg @ sep # join_sep segs"
  by (cases segs) simp_all

lemma join_sep_Cons_char: "join_sep ((c # seg) # segs) = c # join_sep (seg # segs)"
  by (cases segs) simp_all

lemma join_split: "join_sep (split_sep s) = s"
proof (induction s)
  case Nil
  show ?case by simp
next
  case (Cons c cs)
  show ?case
  proof (cases "c = sep")
    case True
    with Cons show ?thesis by (simp add: join_sep_Cons split_sep_nonempty)
  next
    case False
    obtain seg segs where "split_sep cs = seg # segs"
      using split_sep_nonempty [of cs] by (cases "split_sep cs") auto
    with Cons False show ?thesis by (simp add: join_sep_Cons_char)
  qed
qed

lemma join_sep_snoc: "segs \<noteq> [] \<Longrightarrow> join_sep (segs @ [l]) = join_sep segs @ sep # l"
  by (induction segs rule: join_sep.induct) simp_all

lemma join_sep_not_empty: "segs \<noteq> [] \<Longrightarrow> [] \<notin> set segs \<Longrightarrow> join_sep segs \<noteq> []"
  by (induction segs rule: join_sep.induct) simp_all

lemma butlast_split_nonempty:
  assumes "sep \<in> set s"
  shows "butlast (split_sep s) \<noteq> []"
proof -
  have "length (split_sep s) \<noteq> 1"
  proof
    assume "length (split_sep s) = 1"
    then obtain x where "split_sep s = [x]" by (cases "split_sep s") auto
    then have "s = x" "sep \<notin> set x"
      using join_split [of s] split_sep_segments [of x s] by auto
    with assms show False by simp
  qed
  then show ?thesis
    using split_sep_nonempty [of s] by (cases "split_sep s" rule: rev_cases) auto
qed

lemma split_decompose:
  assumes "sep \<in> set s"
  shows "s = join_sep (butlast (split_sep s)) @ sep # last (split_sep s)"
proof -
  have "s = join_sep (butlast (split_sep s) @ [last (split_sep s)])"
    using split_sep_nonempty [of s] by (simp add: join_split)
  then show ?thesis
    using butlast_split_nonempty [OF assms] by (simp add: join_sep_snoc)
qed

lemma parse_segments:
  "logical_id (parse s) = last (split_sep s) \<and>
   stack_path (parse s) = join_sep (butlast (split_sep s))"
proof (cases "sep \<in> set s")
  case False
  then show ?thesis by (simp add: parse_no_sep split_sep_no_sep)
next
  case True
  have "sep \<notin> set (last (split_sep s))"
    using split_sep_segments [of "last (split_sep s)" s] split_sep_nonempty [of s] by simp
  from parse_at_last_sep [OF this, of "join_sep (butlast (split_sep s))"]
    split_decompose [OF True]
  show ?thesis by simp
qed

text \<open>
  The round trip holds exactly for the strings that do not lose a leading separator: the
  only ones that fail are a single separator followed by a name without separator, such
  as \<^verbatim>\<open>/A\<close>, which parses to the root identifier \<^verbatim>\<open>A\<close>.
\<close>

lemma roundtrip_iff:
  "to_string (parse s) = s \<longleftrightarrow> (sep \<notin> set s \<or> stack_path (parse s) \<noteq> [])"
proof (cases "sep \<in> set s")
  case False
  then show ?thesis by (simp add: parse_no_sep to_string_def path_join_def)
next
  case True
  let ?p = "join_sep (butlast (split_sep s))" and ?l = "last (split_sep s)"
  have s: "s = ?p @ sep # ?l" by (rule split_decompose [OF True])
  have "to_string (parse s) = path_join ?p ?l"
    using parse_segments [of s] by (simp add: to_string_def)
  moreover have "path_join ?p ?l = s \<longleftrightarrow> ?p \<noteq> []"
  proof (cases "?p = []")
    case True
    then have "s = sep # ?l" using s by simp
    then have "length s = Suc (length ?l)" by (metis length_Cons)
    then have "?l \<noteq> s" by auto
    with True show ?thesis by (simp add: path_join_def)
  next
    case False
    then show ?thesis using s by (simp add: path_join_def)
  qed
  ultimately show ?thesis using True parse_segments [of s] by simp
qed

lemma roundtrip_leading_separator: "to_string (parse (sep # ''A'')) = ''A''"
  using parse_at_last_sep [of "''A''" "[]"]
  by (simp add: sep_def to_string_def path_join_def)

lemma well_formed_stack_path:
  assumes "well_formed s" and "sep \<in> set s"
  shows "stack_path (parse s) \<noteq> []"
proof -
  from assms have "[] \<notin> set (split_sep s)" by (auto simp: well_formed_def)
  then have "[] \<notin> set (butlast (split_sep s))" by (auto dest: in_set_butlastD)
  with butlast_split_nonempty [OF assms(2)] have "join_sep (butlast (split_sep s)) \<noteq> []"
    by (rule join_sep_not_empty)
  then show ?thesis using parse_segments [of s] by simp
qed

text \<open>
  C9. Parsing is a total function that splits at the last separator: the logical id is the
  last segment of the string and the stack path is the join of the segments before it;
  the empty string gives two empty fields; and for a well-formed string, \<open>to_string\<close> of
  the parsed identifier is the string again.
\<close>

theorem parse_roundtrip:
  "logical_id (parse s) = last (split_sep s)
   \<and> stack_path (parse s) = join_sep (butlast (split_sep s))
   \<and> parse [] = \<lparr>stack_path = [], logical_id = []\<rparr>
   \<and> (well_formed s \<longrightarrow> to_string (parse s) = s)"
proof -
  have "parse [] = \<lparr>stack_path = [], logical_id = []\<rparr>" by (simp add: parse_def)
  moreover have "well_formed s \<longrightarrow> to_string (parse s) = s"
    using well_formed_stack_path [of s] by (auto simp: roundtrip_iff)
  ultimately show ?thesis using parse_segments [of s] by simp
qed

theorem parse_roundtrip_witness:
  "well_formed ''NestedStack1/NestedNestedStack2/Function1''
   \<and> stack_path (parse ''NestedStack1/NestedNestedStack2/Function1'') = ''NestedStack1/NestedNestedStack2''
   \<and> logical_id (parse ''NestedStack1/NestedNestedStack2/Function1'') = ''Function1''
   \<and> to_string (parse ''NestedStack1/NestedNestedStack2/Function1'')
       = ''NestedStack1/NestedNestedStack2/Function1''"
proof -
  have wf: "well_formed ''NestedStack1/NestedNestedStack2/Function1''"
    by (simp add: well_formed_def sep_def)
  have segs: "split_sep ''NestedStack1/NestedNestedStack2/Function1''
      = [''NestedStack1'', ''NestedNestedStack2'', ''Function1'']"
    by (simp add: sep_def)
  show ?thesis
    using wf parse_roundtrip [of "''NestedStack1/NestedNestedStack2/Function1''"]
    unfolding segs by (simp add: sep_def)
qed

section \<open>The resolver\<close>

lemma test_paths:
  "stack_full_path root_stack = []"
  "stack_full_path nested_stack = ''NestedStack1''"
  "stack_full_path nested_nested_stack = ''NestedStack1/NestedNestedStack1''"
  by (simp_all add: stack_full_path_def path_join_def sep_def root_stack_def nested_stack_def
      nested_nested_stack_def)

lemma test_resources:
  "resources root_stack = [(''Function1'', body1), (''Table1'', body4), (''Untyped1'', body5)]"
  "resources nested_stack = [(''Function1'', body2)]"
  "resources nested_nested_stack = [(''Function2'', body3)]"
  by (simp_all add: root_stack_def nested_stack_def nested_nested_stack_def)

lemma test_stacks_distinct:
  "root_stack \<noteq> nested_stack" "nested_stack \<noteq> nested_nested_stack"
  "root_stack \<noteq> nested_nested_stack"
  by (simp_all add: root_stack_def nested_stack_def nested_nested_stack_def)

lemma find_stack_None: "(find_stack sts p = None) = (\<forall>s\<in>set sts. stack_full_path s \<noteq> p)"
  by (induction sts) auto

lemma find_stack_Some: "find_stack sts p = Some s \<Longrightarrow> s \<in> set sts \<and> stack_full_path s = p"
  by (induction sts) (auto split: if_splits)

lemma find_stack_unique:
  assumes "s \<in> set sts" and "stack_full_path s = p"
    and "\<forall>s'\<in>set sts. stack_full_path s' = p \<longrightarrow> s' = s"
  shows "find_stack sts p = Some s"
proof (cases "find_stack sts p")
  case None
  with assms(1,2) show ?thesis by (simp add: find_stack_None)
next
  case (Some s')
  from find_stack_Some [OF this] assms(3) have "s' = s" by blast
  with Some show ?thesis by simp
qed

lemma scan_stacks_first:
  assumes "\<forall>s'\<in>set pre. map_of (resources s') lid = None"
    and "map_of (resources s) lid = Some r"
  shows "scan_stacks (pre @ s # post) lid = Some r"
  using assms by (induction pre) simp_all

lemma scan_stacks_None:
  "(scan_stacks sts lid = None) = (\<forall>s\<in>set sts. map_of (resources s) lid = None)"
  by (induction sts) (auto split: option.splits)

text \<open>
  C6. In explicit mode the result is what the one stack whose full path equals the
  identifier's stack path has under the logical id (nothing, if that stack lacks it), and
  nothing when no stack has that path. There is no fallback: a resource that is returned
  is always one of a stack with exactly that path.
\<close>

theorem get_resource_by_id_explicit:
  "(s \<in> set sts \<and> stack_full_path s = stack_path rid
      \<and> (\<forall>s'\<in>set sts. stack_full_path s' = stack_path rid \<longrightarrow> s' = s)
     \<longrightarrow> get_resource_by_id sts rid True = map_of (resources s) (logical_id rid))
   \<and> ((\<forall>s\<in>set sts. stack_full_path s \<noteq> stack_path rid)
     \<longrightarrow> get_resource_by_id sts rid True = None)
   \<and> (get_resource_by_id sts rid True = Some r
     \<longrightarrow> (\<exists>s\<in>set sts. stack_full_path s = stack_path rid
            \<and> map_of (resources s) (logical_id rid) = Some r))"
proof (intro conjI impI)
  assume "s \<in> set sts \<and> stack_full_path s = stack_path rid
      \<and> (\<forall>s'\<in>set sts. stack_full_path s' = stack_path rid \<longrightarrow> s' = s)"
  then have "find_stack sts (stack_path rid) = Some s"
    by (intro find_stack_unique) simp_all
  then show "get_resource_by_id sts rid True = map_of (resources s) (logical_id rid)"
    by (simp add: get_resource_by_id_def)
next
  assume "\<forall>s\<in>set sts. stack_full_path s \<noteq> stack_path rid"
  then have "find_stack sts (stack_path rid) = None" by (simp add: find_stack_None)
  then show "get_resource_by_id sts rid True = None"
    by (simp add: get_resource_by_id_def)
next
  assume "get_resource_by_id sts rid True = Some r"
  then obtain s where "find_stack sts (stack_path rid) = Some s"
    and "map_of (resources s) (logical_id rid) = Some r"
    by (auto simp: get_resource_by_id_def split: option.splits)
  then show "\<exists>s\<in>set sts. stack_full_path s = stack_path rid
            \<and> map_of (resources s) (logical_id rid) = Some r"
    by (auto dest: find_stack_Some)
qed

theorem get_resource_by_id_explicit_witness:
  "get_resource_by_id test_stacks \<lparr>stack_path = ''NestedStack1'', logical_id = ''Function1''\<rparr> True
     = Some body2
   \<and> get_resource_by_id test_stacks \<lparr>stack_path = ''NestedStack1'', logical_id = ''Function2''\<rparr> True
     = None
   \<and> get_resource_by_id test_stacks \<lparr>stack_path = ''NestedStack2'', logical_id = ''Function1''\<rparr> True
     = None"
  using get_resource_by_id_explicit [of nested_stack test_stacks
      "\<lparr>stack_path = ''NestedStack1'', logical_id = ''Function1''\<rparr>"]
    get_resource_by_id_explicit [of nested_stack test_stacks
      "\<lparr>stack_path = ''NestedStack1'', logical_id = ''Function2''\<rparr>"]
    get_resource_by_id_explicit [of nested_stack test_stacks
      "\<lparr>stack_path = ''NestedStack2'', logical_id = ''Function1''\<rparr>"]
  by (simp add: test_stacks_def test_paths test_resources)

text \<open>
  C5. In implicit mode an identifier with a stack path is resolved as in explicit mode;
  one without is resolved by the first stack of the list that has the logical id among
  its resources; and when no stack has it the result is the not-found value. The function
  is total: there is no input on which it raises.
\<close>

theorem get_resource_by_id_implicit:
  "(stack_path rid \<noteq> []
     \<longrightarrow> get_resource_by_id sts rid False = get_resource_by_id sts rid True)
   \<and> (stack_path rid = [] \<and> sts = pre @ s # post
        \<and> (\<forall>s'\<in>set pre. map_of (resources s') (logical_id rid) = None)
        \<and> map_of (resources s) (logical_id rid) = Some r
     \<longrightarrow> get_resource_by_id sts rid False = Some r)
   \<and> (stack_path rid = [] \<and> (\<forall>s\<in>set sts. map_of (resources s) (logical_id rid) = None)
     \<longrightarrow> get_resource_by_id sts rid False = None)"
proof (intro conjI impI)
  assume "stack_path rid \<noteq> []"
  then show "get_resource_by_id sts rid False = get_resource_by_id sts rid True"
    by (simp add: get_resource_by_id_def)
next
  assume a: "stack_path rid = [] \<and> sts = pre @ s # post
        \<and> (\<forall>s'\<in>set pre. map_of (resources s') (logical_id rid) = None)
        \<and> map_of (resources s) (logical_id rid) = Some r"
  then have "scan_stacks (pre @ s # post) (logical_id rid) = Some r"
    by (intro scan_stacks_first) simp_all
  with a show "get_resource_by_id sts rid False = Some r"
    by (simp add: get_resource_by_id_def)
next
  assume "stack_path rid = [] \<and> (\<forall>s\<in>set sts. map_of (resources s) (logical_id rid) = None)"
  then show "get_resource_by_id sts rid False = None"
    by (simp add: get_resource_by_id_def scan_stacks_None)
qed

theorem get_resource_by_id_implicit_witness:
  "get_resource_by_id test_stacks \<lparr>stack_path = ''NestedStack1'', logical_id = ''Function1''\<rparr> False
     = Some body2
   \<and> get_resource_by_id test_stacks \<lparr>stack_path = [], logical_id = ''Function1''\<rparr> False
     = Some body1
   \<and> get_resource_by_id test_stacks \<lparr>stack_path = [], logical_id = ''Function2''\<rparr> False
     = Some body3
   \<and> get_resource_by_id test_stacks \<lparr>stack_path = [], logical_id = ''Function3''\<rparr> False
     = None"
proof -
  have explicit: "get_resource_by_id test_stacks
      \<lparr>stack_path = ''NestedStack1'', logical_id = ''Function1''\<rparr> True = Some body2"
    by (simp add: get_resource_by_id_def test_stacks_def test_paths test_resources)
  have split1: "test_stacks = [] @ root_stack # [nested_stack, nested_nested_stack]"
    and split3: "test_stacks = [root_stack, nested_stack] @ nested_nested_stack # []"
    by (simp_all add: test_stacks_def)
  show ?thesis
    using explicit
      get_resource_by_id_implicit [of "\<lparr>stack_path = ''NestedStack1'', logical_id = ''Function1''\<rparr>"
        test_stacks]
      get_resource_by_id_implicit [of "\<lparr>stack_path = [], logical_id = ''Function1''\<rparr>"
        test_stacks "[]" root_stack "[nested_stack, nested_nested_stack]" body1, simplified]
      get_resource_by_id_implicit [of "\<lparr>stack_path = [], logical_id = ''Function2''\<rparr>"
        test_stacks "[root_stack, nested_stack]" nested_nested_stack "[]" body3]
      get_resource_by_id_implicit [of "\<lparr>stack_path = [], logical_id = ''Function3''\<rparr>"
        test_stacks]
    by (simp add: split1 [symmetric] test_resources) (simp add: test_stacks_def test_resources)
qed

lemma scan_resources_eq:
  "scan_resources p t rs acc =
     acc @ map (\<lambda>(lid, r). parse (path_join p lid))
             (filter (\<lambda>(lid, r). map_of r ''Type'' = Some (PStr t)) rs)"
  by (induction rs arbitrary: acc) auto

lemma scan_types_eq: "scan_types sts t acc = acc @ concat (map (matching_ids t) sts)"
  by (induction sts arbitrary: acc) (simp_all add: scan_resources_eq matching_ids_def)

lemma matching_ids_empty:
  "(\<forall>(lid, r)\<in>set (resources s). map_of r ''Type'' \<noteq> Some (PStr t)) \<Longrightarrow> matching_ids t s = []"
  by (auto simp: matching_ids_def filter_empty_conv)

text \<open>
  C7. The type scan returns the identifiers of the matching resources and nothing else:
  stack after stack in list order, and within a stack in the order of its resources
  mapping, each identifier parsed from the stack's full path joined with the logical id
  (which, for a logical id without separator, is the identifier with exactly these two
  fields). When no resource matches, the result is the empty list.
\<close>

theorem get_resources_by_type_ordered:
  "get_resources_by_type sts t = concat (map (matching_ids t) sts)
   \<and> (\<forall>s lid. sep \<notin> set lid \<longrightarrow>
        parse (path_join (stack_full_path s) lid)
          = \<lparr>stack_path = stack_full_path s, logical_id = lid\<rparr>)
   \<and> ((\<forall>s\<in>set sts. \<forall>(lid, r)\<in>set (resources s). map_of r ''Type'' \<noteq> Some (PStr t))
        \<longrightarrow> get_resources_by_type sts t = [])"
proof -
  have eq: "get_resources_by_type sts t = concat (map (matching_ids t) sts)"
    by (simp add: get_resources_by_type_def scan_types_eq)
  have "(\<forall>s\<in>set sts. \<forall>(lid, r)\<in>set (resources s). map_of r ''Type'' \<noteq> Some (PStr t))
        \<longrightarrow> get_resources_by_type sts t = []"
    unfolding eq by (simp add: matching_ids_empty)
  then show ?thesis using eq by (simp add: parse_path_join)
qed

theorem get_resources_by_type_ordered_witness:
  "get_resources_by_type test_stacks ''AWS::Serverless::Function''
     = [\<lparr>stack_path = [], logical_id = ''Function1''\<rparr>,
        \<lparr>stack_path = ''NestedStack1'', logical_id = ''Function1''\<rparr>]
   \<and> get_resources_by_type test_stacks ''AWS::Serverless::LayerVersion''
     = [\<lparr>stack_path = ''NestedStack1/NestedNestedStack1'', logical_id = ''Function2''\<rparr>]
   \<and> get_resources_by_type test_stacks ''AWS::S3::Bucket'' = []"
proof -
  have types: "map_of body1 ''Type'' = Some (PStr ''AWS::Serverless::Function'')"
    "map_of body2 ''Type'' = Some (PStr ''AWS::Serverless::Function'')"
    "map_of body3 ''Type'' = Some (PStr ''AWS::Serverless::LayerVersion'')"
    "map_of body4 ''Type'' = Some (PStr ''AWS::DynamoDB::Table'')"
    "map_of body5 ''Type'' = None"
    by (simp_all add: body1_def body2_def body3_def body4_def body5_def)
  have nosep: "sep \<notin> set ''Function1''" "sep \<notin> set ''Function2''"
    by (simp_all add: sep_def)
  have ids: "parse (path_join [] ''Function1'') = \<lparr>stack_path = [], logical_id = ''Function1''\<rparr>"
    "parse (path_join ''NestedStack1'' ''Function1'')
       = \<lparr>stack_path = ''NestedStack1'', logical_id = ''Function1''\<rparr>"
    "parse (path_join ''NestedStack1/NestedNestedStack1'' ''Function2'')
       = \<lparr>stack_path = ''NestedStack1/NestedNestedStack1'', logical_id = ''Function2''\<rparr>"
    by (rule parse_path_join, rule nosep)+
  show ?thesis
    using get_resources_by_type_ordered [of test_stacks "''AWS::Serverless::Function''"]
      get_resources_by_type_ordered [of test_stacks "''AWS::Serverless::LayerVersion''"]
      get_resources_by_type_ordered [of test_stacks "''AWS::S3::Bucket''"]
    by (simp add: test_stacks_def matching_ids_def test_resources test_paths types ids)
qed

section \<open>The flow factory\<close>

lemma test_factory_fields:
  "stacks test_factory = test_stacks"
  "build_context test_factory = BuildContext 0"
  "deploy_context test_factory = test_deploy_context"
  "physical_id_mapping test_factory = 0"
  "boto_config test_factory = \<lparr>region_name = Some ''us-east-1''\<rparr>"
  by (simp_all add: test_factory_def init_def new_dict_def empty_heap_def test_deploy_context_def)

lemma test_heap_objects: "objects test_heap = (\<lambda>a. Map.empty)"
  by (simp add: test_heap_def init_def new_dict_def empty_heap_def fun_eq_iff)

lemma body_types:
  "map_of body1 ''Type'' = Some (PStr ''AWS::Serverless::Function'')"
  "map_of body2 ''Type'' = Some (PStr ''AWS::Serverless::Function'')"
  "map_of body3 ''Type'' = Some (PStr ''AWS::Serverless::LayerVersion'')"
  "map_of body4 ''Type'' = Some (PStr ''AWS::DynamoDB::Table'')"
  "map_of body5 ''Type'' = None"
  by (simp_all add: body1_def body2_def body3_def body4_def body5_def)

lemma body_properties:
  "map_of body1 ''Properties'' = Some (PDict [(''Runtime'', PStr ''python3.8'')])"
  "map_of body2 ''Properties'' = Some (PDict [(''PackageType'', PStr ''Image'')])"
  "map_of body3 ''Properties'' = None"
  by (simp_all add: body1_def body2_def body3_def)

lemma bodies_nonempty: "body1 \<noteq> []" "body2 \<noteq> []" "body3 \<noteq> []" "body4 \<noteq> []" "body5 \<noteq> []"
  by (simp_all add: body1_def body2_def body3_def body4_def body5_def)

lemma aws_table:
  "FLOW_FACTORY_FUNCTIONS aws ''AWS::Serverless::Function'' = Some (create_lambda_flow aws)"
  "FLOW_FACTORY_FUNCTIONS aws ''AWS::Serverless::LayerVersion'' = Some create_layer_flow"
  "FLOW_FACTORY_FUNCTIONS aws ''AWS::DynamoDB::Table'' = None"
  by (simp_all add: FLOW_FACTORY_FUNCTIONS_def aws_def)

lemma aws_package_types: "ZIP aws = ''Zip''" "IMAGE aws = ''Image''"
  by (simp_all add: aws_def)

lemma resolve_test_stacks:
  "get_resource_by_id test_stacks \<lparr>stack_path = [], logical_id = ''Function1''\<rparr> True = Some body1"
  "get_resource_by_id test_stacks \<lparr>stack_path = [], logical_id = ''Table1''\<rparr> True = Some body4"
  "get_resource_by_id test_stacks \<lparr>stack_path = [], logical_id = ''Untyped1''\<rparr> True = Some body5"
  "get_resource_by_id test_stacks \<lparr>stack_path = [], logical_id = ''Function2''\<rparr> True = None"
  "get_resource_by_id test_stacks \<lparr>stack_path = ''NestedStack1'', logical_id = ''Function1''\<rparr> True
     = Some body2"
  "get_resource_by_id test_stacks
     \<lparr>stack_path = ''NestedStack1/NestedNestedStack1'', logical_id = ''Function2''\<rparr> True = Some body3"
  by (simp_all add: get_resource_by_id_def test_stacks_def test_paths test_resources)

lemma resolve_default:
  "get_resource_by_id test_stacks \<lparr>stack_path = [], logical_id = ''Function1''\<rparr>
     explicit_nested_default = Some body1"
  "get_resource_by_id test_stacks \<lparr>stack_path = [], logical_id = ''Table1''\<rparr>
     explicit_nested_default = Some body4"
  "get_resource_by_id test_stacks \<lparr>stack_path = [], logical_id = ''Untyped1''\<rparr>
     explicit_nested_default = Some body5"
  "get_resource_by_id test_stacks
     \<lparr>stack_path = ''NestedStack1/NestedNestedStack1'', logical_id = ''Function2''\<rparr>
     explicit_nested_default = Some body3"
  by (cases explicit_nested_default;
      simp add: get_resource_by_id_def test_stacks_def test_paths test_resources)+

lemma table_cases:
  "FLOW_FACTORY_FUNCTIONS c t = Some f \<Longrightarrow>
     f = create_lambda_flow c \<or> f = create_layer_flow \<or> f = create_rest_api_flow
       \<or> f = create_api_flow"
  by (auto simp: FLOW_FACTORY_FUNCTIONS_def split: if_splits)

lemma table_stub:
  assumes "t \<in> {SERVERLESS_LAYER c, LAMBDA_LAYER c, SERVERLESS_API c, APIGATEWAY_RESTAPI c,
                 SERVERLESS_HTTP_API c, APIGATEWAY_V2_API c}"
  shows "\<exists>f. FLOW_FACTORY_FUNCTIONS c t = Some f \<and> (\<forall>self' rid' r'. f self' rid' r' = Inr None)"
  using assms
  by (auto simp: FLOW_FACTORY_FUNCTIONS_def create_layer_flow_def create_rest_api_flow_def
      create_api_flow_def)

lemma create_lambda_flow_mapping:
  "create_lambda_flow c self rid resource = Inr (Some flow) \<Longrightarrow>
     flow_physical_id_mapping flow = physical_id_mapping self"
  by (auto simp: create_lambda_flow_def Let_def split: option.splits pyval.splits if_splits)

lemma create_sync_flow_mapping:
  assumes "create_sync_flow c self rid = Inr (Some flow)"
  shows "flow_physical_id_mapping flow = physical_id_mapping self"
proof -
  from assms obtain f resource where f: "f self (to_string rid) resource = Inr (Some flow)"
    and "f = create_lambda_flow c \<or> f = create_layer_flow \<or> f = create_rest_api_flow
       \<or> f = create_api_flow"
    by (auto simp: create_sync_flow_def split: option.splits if_splits pyval.splits
        dest: table_cases)
  then have "f = create_lambda_flow c"
    by (auto simp: create_layer_flow_def create_rest_api_flow_def create_api_flow_def)
  with f show ?thesis by (auto dest: create_lambda_flow_mapping)
qed

lemma snapshot_Cons:
  "snapshot (r # rs) = [logical_resource_id r \<mapsto> physical_resource_id r] ++ snapshot rs"
  by (simp add: snapshot_def map_of_append)

lemma map_upd_add: "m(k \<mapsto> v) ++ n = m ++ ([k \<mapsto> v] ++ n)"
  by (rule ext) (simp add: map_add_def split: option.splits)

lemma populate_objects:
  "objects (snd (populate a it h)) = (objects h)(a := objects h a ++ snapshot (yielded it))"
proof (induction it arbitrary: h)
  case StopIteration
  show ?case by (simp add: snapshot_def)
next
  case (Raise e)
  show ?case by (simp add: snapshot_def)
next
  case (Yield r rest)
  let ?k = "logical_resource_id r" and ?v = "physical_resource_id r"
  let ?h = "setitem h a ?k ?v"
  have at_a: "objects ?h a = (objects h a)(?k \<mapsto> ?v)"
    by (simp add: setitem_def)
  have upd: "(objects ?h)(a := m) = (objects h)(a := m)" for m
    by (simp add: setitem_def)
  have step: "(objects h a)(?k \<mapsto> ?v) ++ snapshot (yielded rest)
      = objects h a ++ snapshot (yielded (Yield r rest))"
    unfolding yielded.simps snapshot_Cons by (rule map_upd_add)
  have "objects (snd (populate a (Yield r rest) h)) = objects (snd (populate a rest ?h))"
    by simp
  also have "\<dots> = (objects ?h)(a := objects ?h a ++ snapshot (yielded rest))"
    by (rule Yield.IH)
  also have "\<dots> = (objects h)(a := objects ?h a ++ snapshot (yielded rest))"
    by (rule upd)
  also have "\<dots> = (objects h)(a := objects h a ++ snapshot (yielded (Yield r rest)))"
    by (simp only: at_a step)
  finally show ?case .
qed

lemma populate_outcome: "fst (populate a it h) = outcome it"
  by (induction it arbitrary: h) simp_all

lemma load_objects:
  "objects (snd (load_physical_id_mapping cfn self h)) =
     (objects h)(physical_id_mapping self :=
        snapshot (yielded (cfn (boto_config self) (stack_name (deploy_context self)))))"
  by (simp add: load_physical_id_mapping_def Let_def populate_objects clear_def)

lemma load_outcome:
  "fst (load_physical_id_mapping cfn self h)
     = outcome (cfn (boto_config self) (stack_name (deploy_context self)))"
  by (simp add: load_physical_id_mapping_def Let_def populate_outcome)

text \<open>
  Outside the data model, where the Properties of a resource are a record: on Properties
  that are not a dictionary the second \<^verbatim>\<open>get\<close> raises.
\<close>

lemma create_lambda_flow_properties_not_dict:
  assumes "map_of resource ''Properties'' = Some v" and "\<forall>props. v \<noteq> PDict props"
  shows "create_lambda_flow c self rid resource = Inl AttributeError"
  using assms by (cases v) (simp_all add: create_lambda_flow_def)

text \<open>
  C2, as the code has it. The constructor reads the package type from the Properties of
  the resource, with the zip type as the default when the Properties or the package type
  are missing: a missing or zip package type yields a zip flow, the image type an image
  flow, and any other package type nothing. (Properties, when present, are a dictionary.)
\<close>

theorem create_lambda_flow_by_package_type:
  "(map_of resource ''Properties'' = None
      \<or> map_of resource ''Properties'' = Some (PDict props)
          \<and> (map_of props ''PackageType'' = None
              \<or> map_of props ''PackageType'' = Some (PStr (ZIP c)))
     \<longrightarrow> create_lambda_flow c self rid resource
          = Inr (Some (ZipFunctionSyncFlow rid (build_context self) (deploy_context self)
                  (physical_id_mapping self) (stacks self))))
   \<and> (map_of resource ''Properties'' = Some (PDict props)
        \<and> map_of props ''PackageType'' = Some (PStr (IMAGE c)) \<and> IMAGE c \<noteq> ZIP c
     \<longrightarrow> create_lambda_flow c self rid resource
          = Inr (Some (ImageFunctionSyncFlow rid (build_context self) (deploy_context self)
                  (physical_id_mapping self) (stacks self))))
   \<and> (map_of resource ''Properties'' = Some (PDict props)
        \<and> map_of props ''PackageType'' = Some kind
        \<and> kind \<noteq> PStr (ZIP c) \<and> kind \<noteq> PStr (IMAGE c)
     \<longrightarrow> create_lambda_flow c self rid resource = Inr None)"
  by (auto simp: create_lambda_flow_def)

theorem create_lambda_flow_by_package_type_witness:
  "create_lambda_flow aws test_factory ''Function1''
       [(''Properties'', PDict [(''PackageType'', PStr ''Zip'')])]
     = Inr (Some (ZipFunctionSyncFlow ''Function1'' (BuildContext 0) test_deploy_context 0
              test_stacks))
   \<and> create_lambda_flow aws test_factory ''NestedStack1/Function1'' body2
     = Inr (Some (ImageFunctionSyncFlow ''NestedStack1/Function1'' (BuildContext 0)
              test_deploy_context 0 test_stacks))
   \<and> create_lambda_flow aws test_factory ''Function1''
       [(''Properties'', PDict [(''PackageType'', PStr ''Jar'')])]
     = Inr None"
  using create_lambda_flow_by_package_type
      [of "[(''Properties'', PDict [(''PackageType'', PStr ''Zip'')])]"
        "[(''PackageType'', PStr ''Zip'')]" aws test_factory "''Function1''"]
    create_lambda_flow_by_package_type
      [of body2 "[(''PackageType'', PStr ''Image'')]" aws test_factory "''NestedStack1/Function1''"]
    create_lambda_flow_by_package_type
      [of "[(''Properties'', PDict [(''PackageType'', PStr ''Jar'')])]"
        "[(''PackageType'', PStr ''Jar'')]" aws test_factory "''Function1''" "PStr ''Jar''"]
  by (simp add: body_properties aws_package_types test_factory_fields)

text \<open>
  The claim C2 as written fails where the package type is missing: a function resource
  without PackageType, and one without Properties, both get a zip flow.
\<close>

theorem create_lambda_flow_missing_kind_counterexample:
  "map_of body1 ''Properties'' = Some (PDict [(''Runtime'', PStr ''python3.8'')])
   \<and> create_lambda_flow aws test_factory ''Function1'' body1
     = Inr (Some (ZipFunctionSyncFlow ''Function1'' (BuildContext 0) test_deploy_context 0
              test_stacks))
   \<and> create_lambda_flow aws test_factory ''Function1''
       [(''Type'', PStr ''AWS::Serverless::Function'')]
     = Inr (Some (ZipFunctionSyncFlow ''Function1'' (BuildContext 0) test_deploy_context 0
              test_stacks))"
  by (simp add: create_lambda_flow_def body_properties aws_package_types test_factory_fields)

text \<open>
  C3, as the code has it. A flow built by the factory holds the factory's own mapping
  object, and a load clears and refills that object in place: after a load, the mapping a
  flow built earlier holds has the contents the load stored, like the factory's.
\<close>

theorem flow_sees_reloaded_mapping:
  "create_sync_flow c self rid = Inr (Some flow) \<longrightarrow>
     flow_physical_id_mapping flow = physical_id_mapping self
     \<and> objects (snd (load_physical_id_mapping cfn self h)) (flow_physical_id_mapping flow)
         = snapshot (yielded (cfn (boto_config self) (stack_name (deploy_context self))))"
proof
  assume "create_sync_flow c self rid = Inr (Some flow)"
  then have "flow_physical_id_mapping flow = physical_id_mapping self"
    by (rule create_sync_flow_mapping)
  then show "flow_physical_id_mapping flow = physical_id_mapping self
     \<and> objects (snd (load_physical_id_mapping cfn self h)) (flow_physical_id_mapping flow)
         = snapshot (yielded (cfn (boto_config self) (stack_name (deploy_context self))))"
    by (simp add: load_objects)
qed

lemma create_test_flow:
  "create_sync_flow aws test_factory \<lparr>stack_path = [], logical_id = ''Function1''\<rparr>
     = Inr (Some test_flow)"
  by (simp add: create_sync_flow_def test_factory_fields resolve_default bodies_nonempty
      body_types aws_table create_lambda_flow_def body_properties aws_package_types
      to_string_def path_join_def test_flow_def)

theorem flow_sees_reloaded_mapping_witness:
  "create_sync_flow aws test_factory \<lparr>stack_path = [], logical_id = ''Function1''\<rparr>
     = Inr (Some test_flow)
   \<and> objects (snd (load_physical_id_mapping second_fetch test_factory test_heap))
       (flow_physical_id_mapping test_flow)
     = [''Function1'' \<mapsto> ''sam-app-Function1-NEW'']"
  using create_test_flow
    flow_sees_reloaded_mapping [of aws test_factory
      "\<lparr>stack_path = [], logical_id = ''Function1''\<rparr>" test_flow second_fetch test_heap]
  by (simp add: second_fetch_def test_flow_def test_factory_fields snapshot_def)

text \<open>
  The claim C3 as written fails: the flow is built after a first load and before a second
  one, and the mapping it holds has the old physical id before the second load and the
  new one after it.
\<close>

theorem flow_mapping_refreshed_counterexample:
  "create_sync_flow aws test_factory \<lparr>stack_path = [], logical_id = ''Function1''\<rparr>
     = Inr (Some test_flow)
   \<and> objects (snd (load_physical_id_mapping first_fetch test_factory test_heap))
       (flow_physical_id_mapping test_flow) ''Function1''
     = Some ''sam-app-Function1-OLD''
   \<and> objects (snd (load_physical_id_mapping second_fetch test_factory
          (snd (load_physical_id_mapping first_fetch test_factory test_heap))))
       (flow_physical_id_mapping test_flow) ''Function1''
     = Some ''sam-app-Function1-NEW''"
  by (simp add: create_test_flow load_objects test_factory_fields test_flow_def
      first_fetch_def second_fetch_def snapshot_def)

text \<open>
  C4, as the code has it. A load first empties the mapping and then stores every summary
  as the iteration yields it. It ends as the iteration ends, and the mapping then holds
  exactly the summaries yielded: the whole new snapshot on success, the ones that came
  before the failure otherwise (none, if the fetch fails at once). Nothing of the
  mapping's earlier contents is kept in either case.
\<close>

theorem load_physical_id_mapping_applies_yielded:
  "fst (load_physical_id_mapping cfn self h)
     = outcome (cfn (boto_config self) (stack_name (deploy_context self)))
   \<and> objects (snd (load_physical_id_mapping cfn self h)) (physical_id_mapping self)
     = snapshot (yielded (cfn (boto_config self) (stack_name (deploy_context self))))"
  by (simp add: load_objects load_outcome)

theorem load_physical_id_mapping_applies_yielded_witness:
  "fst (load_physical_id_mapping failing_fetch test_factory test_heap) = Inl ClientError
   \<and> objects (snd (load_physical_id_mapping failing_fetch test_factory test_heap)) 0
     = [''Table1'' \<mapsto> ''sam-app-Table1-NEW'']"
  using load_physical_id_mapping_applies_yielded [of failing_fetch test_factory test_heap]
  by (simp add: failing_fetch_def test_factory_fields snapshot_def)

text \<open>
  The claim C4 as written fails: after a successful first load, a fetch that yields one
  summary and then raises leaves a mapping that is neither the one of the first load nor
  empty nor a whole snapshot: the old entry is gone and the one yielded entry is there.
\<close>

theorem load_partially_applied_counterexample:
  "fst (load_physical_id_mapping first_fetch test_factory test_heap) = Inr ()
   \<and> objects (snd (load_physical_id_mapping first_fetch test_factory test_heap))
       (physical_id_mapping test_factory)
     = [''Function1'' \<mapsto> ''sam-app-Function1-OLD'']
   \<and> fst (load_physical_id_mapping failing_fetch test_factory
          (snd (load_physical_id_mapping first_fetch test_factory test_heap)))
     = Inl ClientError
   \<and> objects (snd (load_physical_id_mapping failing_fetch test_factory
          (snd (load_physical_id_mapping first_fetch test_factory test_heap))))
       (physical_id_mapping test_factory)
     = [''Table1'' \<mapsto> ''sam-app-Table1-NEW'']
   \<and> [''Table1'' \<mapsto> ''sam-app-Table1-NEW''] ''Function1'' = (None :: string option)
   \<and> [''Table1'' \<mapsto> ''sam-app-Table1-NEW''] ''Table1'' = Some ''sam-app-Table1-NEW''"
  by (simp add: load_objects load_outcome first_fetch_def failing_fetch_def snapshot_def)

text \<open>
  Outside the data model, where the Type of a resource is a string: a Type that is a
  non-empty list or dictionary is not hashable, and the lookup in the table raises.
\<close>

lemma create_sync_flow_unhashable_type:
  assumes "get_resource_by_id (stacks self) rid explicit_nested_default = Some resource"
    and "map_of resource ''Type'' = Some v" and "truthy v" and "\<not> hashable v"
  shows "create_sync_flow c self rid = Inl TypeError"
  using assms by (auto simp: create_sync_flow_def)

text \<open>
  C8. The factory returns the not-applicable value, and raises nothing, when the
  identifier does not resolve, when the resource has no Type, and when its Type (a string,
  or any other hashable value) has no entry in the table.
\<close>

theorem create_sync_flow_not_applicable:
  "(get_resource_by_id (stacks self) rid explicit_nested_default = None
     \<longrightarrow> create_sync_flow c self rid = Inr None)
   \<and> (get_resource_by_id (stacks self) rid explicit_nested_default = Some resource
        \<and> map_of resource ''Type'' = None
     \<longrightarrow> create_sync_flow c self rid = Inr None)
   \<and> (get_resource_by_id (stacks self) rid explicit_nested_default = Some resource
        \<and> map_of resource ''Type'' = Some v \<and> hashable v
        \<and> (\<forall>t. v = PStr t \<longrightarrow> FLOW_FACTORY_FUNCTIONS c t = None)
     \<longrightarrow> create_sync_flow c self rid = Inr None)"
  by (auto simp: create_sync_flow_def split: pyval.splits)

theorem create_sync_flow_not_applicable_witness:
  "create_sync_flow aws test_factory \<lparr>stack_path = [], logical_id = ''Function3''\<rparr> = Inr None
   \<and> create_sync_flow aws test_factory \<lparr>stack_path = [], logical_id = ''Untyped1''\<rparr> = Inr None
   \<and> create_sync_flow aws test_factory \<lparr>stack_path = [], logical_id = ''Table1''\<rparr> = Inr None"
proof -
  have unresolved: "get_resource_by_id test_stacks
      \<lparr>stack_path = [], logical_id = ''Function3''\<rparr> explicit_nested_default = None"
    by (simp add: get_resource_by_id_def test_stacks_def test_paths test_resources)
  show ?thesis
    using unresolved
      create_sync_flow_not_applicable
        [of test_factory "\<lparr>stack_path = [], logical_id = ''Function3''\<rparr>" aws]
      create_sync_flow_not_applicable
        [of test_factory "\<lparr>stack_path = [], logical_id = ''Untyped1''\<rparr>" aws body5]
      create_sync_flow_not_applicable
        [of test_factory "\<lparr>stack_path = [], logical_id = ''Table1''\<rparr>" aws body4
          "PStr ''AWS::DynamoDB::Table''"]
    by (simp add: test_factory_fields resolve_default body_types aws_table)
qed

text \<open>
  C10. The layer types and the API types have entries in the table, and the constructors
  entered for them return nothing whatever they are given: for a resource of one of these
  types the factory returns the not-applicable value, as it does for a type without
  entry.
\<close>

theorem create_sync_flow_stub_types:
  "get_resource_by_id (stacks self) rid explicit_nested_default = Some resource
     \<and> map_of resource ''Type'' = Some (PStr t)
     \<and> t \<in> {SERVERLESS_LAYER c, LAMBDA_LAYER c, SERVERLESS_API c, APIGATEWAY_RESTAPI c,
             SERVERLESS_HTTP_API c, APIGATEWAY_V2_API c}
   \<longrightarrow> create_sync_flow c self rid = Inr None
       \<and> (\<exists>f. FLOW_FACTORY_FUNCTIONS c t = Some f \<and> (\<forall>self' rid' r'. f self' rid' r' = Inr None))"
proof
  assume a: "get_resource_by_id (stacks self) rid explicit_nested_default = Some resource
     \<and> map_of resource ''Type'' = Some (PStr t)
     \<and> t \<in> {SERVERLESS_LAYER c, LAMBDA_LAYER c, SERVERLESS_API c, APIGATEWAY_RESTAPI c,
             SERVERLESS_HTTP_API c, APIGATEWAY_V2_API c}"
  then have "\<exists>f. FLOW_FACTORY_FUNCTIONS c t = Some f \<and> (\<forall>self' rid' r'. f self' rid' r' = Inr None)"
    by (intro table_stub) simp
  then obtain f where f: "FLOW_FACTORY_FUNCTIONS c t = Some f"
    and stub: "\<forall>self' rid' r'. f self' rid' r' = Inr None"
    by blast
  from a f stub have "create_sync_flow c self rid = Inr None"
    by (simp add: create_sync_flow_def)
  with f stub show "create_sync_flow c self rid = Inr None
       \<and> (\<exists>f. FLOW_FACTORY_FUNCTIONS c t = Some f \<and> (\<forall>self' rid' r'. f self' rid' r' = Inr None))"
    by blast
qed

theorem create_sync_flow_stub_types_witness:
  "create_sync_flow aws test_factory
      \<lparr>stack_path = ''NestedStack1/NestedNestedStack1'', logical_id = ''Function2''\<rparr> = Inr None
   \<and> FLOW_FACTORY_FUNCTIONS aws ''AWS::Serverless::LayerVersion'' = Some create_layer_flow"
  using create_sync_flow_stub_types
      [of test_factory "\<lparr>stack_path = ''NestedStack1/NestedNestedStack1'', logical_id = ''Function2''\<rparr>"
        body3 "''AWS::Serverless::LayerVersion''" aws]
  by (simp add: test_factory_fields resolve_default body_types aws_table) (simp add: aws_def)

end
